theory Spec2Isabelle
  imports Complex_Main "HOL-Library.Char_ord" "HOL-Library.List_Lexorder"
begin

section \<open>Strings\<close>

text \<open>
  Python \<^verbatim>\<open>str\<close> values and SQL \<^verbatim>\<open>text\<close> values are modelled as
  \<^typ>\<open>string\<close>, read as ASCII text. \<^verbatim>\<open>str.lower()\<close> and SQL \<^verbatim>\<open>LOWER\<close> map
  the letters A-Z to a-z and leave every other character alone. \<^verbatim>\<open>str.strip()\<close>
  removes leading and trailing ASCII whitespace (tab, line feed, vertical tab, form feed,
  carriage return, the separators 28-31 and the space); SQL \<^verbatim>\<open>TRIM\<close> removes
  leading and trailing spaces only.
\<close>

definition lower_char :: "char \<Rightarrow> char" where
  "lower_char c =
     (let n = (of_char c :: nat) in if 65 \<le> n \<and> n \<le> 90 then char_of (n + 32) else c)"

definition py_lower :: "string \<Rightarrow> string" where
  "py_lower s = map lower_char s"

definition py_isspace :: "char \<Rightarrow> bool" where
  "py_isspace c = (let n = (of_char c :: nat) in (9 \<le> n \<and> n \<le> 13) \<or> (28 \<le> n \<and> n \<le> 32))"

definition py_strip :: "string \<Rightarrow> string" where
  "py_strip s = rev (dropWhile py_isspace (rev (dropWhile py_isspace s)))"

definition sql_lower :: "string \<Rightarrow> string" where
  "sql_lower s = map lower_char s"

definition sql_trim :: "string \<Rightarrow> string" where
  "sql_trim s =
     rev (dropWhile (\<lambda>c. c = CHR '' '') (rev (dropWhile (\<lambda>c. c = CHR '' '') s)))"

text \<open>\<^verbatim>\<open>message.replace('*', '').replace('**', '')\<close>: the first call removes every
  asterisk, so the second finds nothing to replace.\<close>

definition format_message :: "string \<Rightarrow> string" where
  "format_message message = filter (\<lambda>c. c \<noteq> CHR ''*'') message"

section \<open>Name normalizer (tool.py)\<close>

text \<open>The three class-level dictionaries. Their keys are pairwise distinct, so the
  association list read by \<^const>\<open>map_of\<close> is the Python dict.\<close>

definition ITEM_MAPPINGS :: "(string \<times> string) list" where
  "ITEM_MAPPINGS =
     [(''cola'', ''Coke''), (''soda'', ''Coke''), (''coke'', ''Coke''),
      (''coca cola'', ''Coke''), (''coca-cola'', ''Coke''),
      (''chips'', ''Lays''), (''potato chips'', ''Lays''), (''lays'', ''Lays''),
      (''biscuit'', ''Bisckets''), (''cookies'', ''Bisckets''),
      (''biscuits'', ''Bisckets''), (''bisckets'', ''Bisckets'')]"

definition VARIANT_MAPPINGS :: "(string \<times> string) list" where
  "VARIANT_MAPPINGS =
     [(''regular'', ''Regular''), (''normal'', ''Regular''), (''small'', ''Regular''),
      (''half liter'', ''Half Liter''), (''half litre'', ''Half Liter''),
      (''500ml'', ''Half Liter''), (''medium'', ''Half Liter''),
      (''1.5 liter'', ''1.5 Liter''), (''1.5 litre'', ''1.5 Liter''),
      (''1500ml'', ''1.5 Liter''), (''large'', ''1.5 Liter''), (''big'', ''1.5 Liter'')]"


text \<open>\<^verbatim>\<open>d.get(key, dflt)\<close>.\<close>

definition dict_get :: "('k \<times> 'v) list \<Rightarrow> 'k \<Rightarrow> 'v \<Rightarrow> 'v" where
  "dict_get d key dflt = (case map_of d key of Some v \<Rightarrow> v | None \<Rightarrow> dflt)"

definition map_item_name :: "string \<Rightarrow> string" where
  "map_item_name item_name =
     (let item_lower = py_strip (py_lower item_name);
          mapped = dict_get ITEM_MAPPINGS item_lower item_name
      in mapped)"

definition map_variant_name :: "string \<Rightarrow> string" where
  "map_variant_name variant_name =
     (let variant_lower = py_strip (py_lower variant_name);
          mapped = dict_get VARIANT_MAPPINGS variant_lower variant_name
      in mapped)"






section \<open>The catalog store\<close>

text \<open>
  The relational store is a record of its two tables, each a list of rows in storage
  order, and the sequence that generates \<^verbatim>\<open>stock_items.id\<close>. The schema is not part of
  the sources; the columns are those the SQL statements of main.py and tool.py name.
  Integer columns are unbounded integers, prices are exact rationals (the rounding of
  \<^verbatim>\<open>float\<close> is not modelled), and the store enforces no constraint of its own:
  connecting succeeds and so does every well-typed statement the code issues. A query
  without \<^verbatim>\<open>ORDER BY\<close> returns its rows in storage order, a join stock row by stock
  row.
\<close>

record stock_row =
  s_id :: int
  s_item_name :: string
  s_quantity :: int
  s_unit :: string
  s_price :: "rat option"
  s_category_id :: "int option"

record variant_row =
  v_id :: int
  v_stock_item_id :: int
  v_variant :: string
  v_quantity :: int
  v_unit :: string
  v_price :: rat

record store =
  stock_items :: "stock_row list"
  item_variants :: "variant_row list"
  stock_items_id_seq :: int

text \<open>\<^verbatim>\<open>conn.fetchrow\<close> gives the first row of the result or \<^verbatim>\<open>None\<close>;
  \<^verbatim>\<open>conn.fetchval\<close> gives the first column of that row.\<close>

definition fetchrow :: "'a list \<Rightarrow> 'a option" where
  "fetchrow rows = (case rows of [] \<Rightarrow> None | row # _ \<Rightarrow> Some row)"

definition fetchval :: "('a \<Rightarrow> 'b) \<Rightarrow> 'a list \<Rightarrow> 'b option" where
  "fetchval col rows = map_option col (fetchrow rows)"

text \<open>Python truth value of an optional integer: \<^verbatim>\<open>None\<close> and \<^verbatim>\<open>0\<close> are false.\<close>

definition truthy :: "int option \<Rightarrow> bool" where
  "truthy x = (case x of None \<Rightarrow> False | Some i \<Rightarrow> i \<noteq> 0)"

text \<open>\<^verbatim>\<open>async with conn.transaction()\<close>: the block's writes are committed when the
  block is left normally, which includes leaving it by \<^verbatim>\<open>return\<close>, and rolled back
  when an exception leaves it.\<close>

datatype ('a, 'e) outcome = Returned 'a | Raised 'e

definition transaction ::
  "store \<Rightarrow> (store \<Rightarrow> store \<times> ('a, 'e) outcome) \<Rightarrow> store \<times> ('a, 'e) outcome" where
  "transaction st body =
     (case body st of
        (st', Returned x) \<Rightarrow> (st', Returned x)
      | (st', Raised e) \<Rightarrow> (st, Raised e))"

text \<open>\<^verbatim>\<open>UPDATE stock_items SET quantity = $1 WHERE id = $2 RETURNING quantity\<close> and its
  twin on \<^verbatim>\<open>item_variants\<close>: the new store and the returned rows.\<close>

definition update_stock_quantity :: "store \<Rightarrow> int \<Rightarrow> int \<Rightarrow> store \<times> int list" where
  "update_stock_quantity st new_quantity item_id =
     (st\<lparr>stock_items :=
          map (\<lambda>r. if s_id r = item_id then r\<lparr>s_quantity := new_quantity\<rparr> else r)
            (stock_items st)\<rparr>,
      map (\<lambda>r. new_quantity) (filter (\<lambda>r. s_id r = item_id) (stock_items st)))"

definition update_variant_quantity :: "store \<Rightarrow> int \<Rightarrow> int \<Rightarrow> store" where
  "update_variant_quantity st new_quantity variant_id =
     st\<lparr>item_variants :=
          map (\<lambda>v. if v_id v = variant_id then v\<lparr>v_quantity := new_quantity\<rparr> else v)
            (item_variants st)\<rparr>"

section \<open>The HTTP handlers (main.py)\<close>

subsection \<open>Request and response models\<close>

record StockItemCreate =
  c_item_name :: string
  c_quantity :: int
  c_unit :: string

record StockItemUpdate =
  u_item_name :: "string option"
  u_quantity :: "int option"
  u_unit :: "string option"

record StockItem =
  si_id :: int
  si_item_name :: string
  si_quantity :: int
  si_unit :: string

record PurchaseRequest =
  p_item_id :: int
  p_quantity :: int

record AddQuantityRequest =
  quantity_to_add :: int

datatype detail =
    NotFound int
  | AlreadyExists string
  | NoFieldsToUpdate
  | InsufficientStock int int
  | FailedTo string

record PurchaseResponse =
  r_message :: "int \<times> string \<times> string"
  r_item_name :: string
  purchased_quantity :: int
  remaining_quantity :: int

text \<open>What a handler can raise. \<open>RequestValidationError\<close> is the 422 answer the framework
  gives when the body breaks a \<^verbatim>\<open>Field\<close> constraint, before the handler runs.\<close>

datatype exn = HTTPException nat detail | RequestValidationError | PyError

text \<open>\<^verbatim>\<open>except HTTPException: raise\<close> followed by
  \<^verbatim>\<open>except Exception: raise HTTPException(500, ...)\<close>.\<close>

definition handler_except :: "string \<Rightarrow> exn \<Rightarrow> exn" where
  "handler_except what e =
     (case e of HTTPException code d \<Rightarrow> HTTPException code d
      | _ \<Rightarrow> HTTPException 500 (FailedTo what))"

text \<open>\<^verbatim>\<open>StockItem(**dict(row))\<close> on a row of
  \<^verbatim>\<open>SELECT id, item_name, quantity, unit\<close>.\<close>

definition to_StockItem :: "stock_row \<Rightarrow> StockItem" where
  "to_StockItem row =
     \<lparr>si_id = s_id row, si_item_name = s_item_name row,
      si_quantity = s_quantity row, si_unit = s_unit row\<rparr>"

subsection \<open>Reads\<close>

definition get_all_stocks :: "store \<Rightarrow> StockItem list" where
  "get_all_stocks st = map to_StockItem (sort_key s_id (stock_items st))"


subsection \<open>\<^verbatim>\<open>POST /stocks\<close>\<close>

text \<open>\<^verbatim>\<open>INSERT INTO stock_items (item_name, quantity, unit) VALUES ($1, $2, $3)
  RETURNING ...\<close>: the id comes from the sequence, the columns not listed are null.\<close>

definition insert_stock_item :: "store \<Rightarrow> string \<Rightarrow> int \<Rightarrow> string \<Rightarrow> store \<times> stock_row" where
  "insert_stock_item st name qty un =
     (let row = \<lparr>s_id = stock_items_id_seq st, s_item_name = name, s_quantity = qty,
                 s_unit = un, s_price = None, s_category_id = None\<rparr>
      in (st\<lparr>stock_items := stock_items st @ [row],
             stock_items_id_seq := stock_items_id_seq st + 1\<rparr>, row))"

definition add_stock :: "store \<Rightarrow> StockItemCreate \<Rightarrow> (exn + StockItem) \<times> store" where
  "add_stock st stock_item =
     (if c_quantity stock_item < 0 then (Inl RequestValidationError, st)
      else
        let existing_item =
              fetchval s_id
                (filter (\<lambda>r. sql_lower (s_item_name r) = sql_lower (c_item_name stock_item))
                   (stock_items st))
        in if truthy existing_item
           then (Inl (HTTPException 400 (AlreadyExists (c_item_name stock_item))), st)
           else
             let (st', row) =
                   insert_stock_item st (c_item_name stock_item) (c_quantity stock_item)
                     (c_unit stock_item)
             in (Inr (to_StockItem row), st'))"

subsection \<open>\<^verbatim>\<open>PUT /stocks/{item_id}\<close>\<close>

text \<open>
  The handler assembles its \<^verbatim>\<open>SET\<close> clause at run time: \<^verbatim>\<open>update_fields\<close> holds one
  assignment \<^verbatim>\<open>column = $n\<close> per field supplied, \<^verbatim>\<open>values\<close> the parameters in the same
  order, and \<^verbatim>\<open>param_count\<close> the next free parameter number. The store executes the
  statement by reading each \<^verbatim>\<open>$n\<close> from the parameter list; a parameter that is missing
  or of the wrong type for its column makes the statement fail.
\<close>

datatype column = Col_item_name | Col_quantity | Col_unit

datatype sql_value = Text string | Integer int

definition param :: "sql_value list \<Rightarrow> nat \<Rightarrow> sql_value option" where
  "param vals n = (if 1 \<le> n \<and> n \<le> length vals then Some (vals ! (n - 1)) else None)"

fun set_column :: "column \<Rightarrow> sql_value \<Rightarrow> stock_row \<Rightarrow> stock_row option" where
  "set_column Col_item_name (Text x) r = Some (r\<lparr>s_item_name := x\<rparr>)"
| "set_column Col_quantity (Integer i) r = Some (r\<lparr>s_quantity := i\<rparr>)"
| "set_column Col_unit (Text x) r = Some (r\<lparr>s_unit := x\<rparr>)"
| "set_column _ _ r = None"

fun apply_set :: "(column \<times> nat) list \<Rightarrow> sql_value list \<Rightarrow> stock_row \<Rightarrow> stock_row option" where
  "apply_set [] vals r = Some r"
| "apply_set ((col, n) # update_fields) vals r =
     (case param vals n of
        None \<Rightarrow> None
      | Some v \<Rightarrow>
          (case set_column col v r of
             None \<Rightarrow> None
           | Some r' \<Rightarrow> apply_set update_fields vals r'))"

fun update_rows ::
  "(column \<times> nat) list \<Rightarrow> sql_value list \<Rightarrow> int \<Rightarrow> stock_row list \<Rightarrow>
   (stock_row list \<times> stock_row list) option" where
  "update_rows update_fields vals i [] = Some ([], [])"
| "update_rows update_fields vals i (r # rs) =
     (case update_rows update_fields vals i rs of
        None \<Rightarrow> None
      | Some (rs', returning) \<Rightarrow>
          if s_id r = i
          then (case apply_set update_fields vals r of
                  None \<Rightarrow> None
                | Some r' \<Rightarrow> Some (r' # rs', r' # returning))
          else Some (r # rs', returning))"

text \<open>\<^verbatim>\<open>UPDATE stock_items SET ... WHERE id = $param_count RETURNING id, item_name,
  quantity, unit\<close>. \<open>None\<close> is the statement failing in the store.\<close>

definition execute_update ::
  "store \<Rightarrow> (column \<times> nat) list \<Rightarrow> nat \<Rightarrow> sql_value list \<Rightarrow> (store \<times> stock_row list) option" where
  "execute_update st update_fields where_param vals =
     (case param vals where_param of
        Some (Integer i) \<Rightarrow>
          (case update_rows update_fields vals i (stock_items st) of
             None \<Rightarrow> None
           | Some (rows, returning) \<Rightarrow> Some (st\<lparr>stock_items := rows\<rparr>, returning))
      | _ \<Rightarrow> None)"

text \<open>The three \<^verbatim>\<open>if stock_update.f is not None\<close> blocks, threading
  \<^verbatim>\<open>(update_fields, values, param_count)\<close>.\<close>

definition add_field ::
  "column \<Rightarrow> sql_value option \<Rightarrow> (column \<times> nat) list \<times> sql_value list \<times> nat \<Rightarrow>
   (column \<times> nat) list \<times> sql_value list \<times> nat" where
  "add_field col supplied acc =
     (case acc of (update_fields, vals, param_count) \<Rightarrow>
        (case supplied of
           None \<Rightarrow> (update_fields, vals, param_count)
         | Some v \<Rightarrow> (update_fields @ [(col, param_count)], vals @ [v], param_count + 1)))"

definition build_update ::
  "StockItemUpdate \<Rightarrow> (column \<times> nat) list \<times> sql_value list \<times> nat" where
  "build_update stock_update =
     add_field Col_unit (map_option Text (u_unit stock_update))
       (add_field Col_quantity (map_option Integer (u_quantity stock_update))
          (add_field Col_item_name (map_option Text (u_item_name stock_update))
             ([], [], 1)))"

definition update_stock ::
  "store \<Rightarrow> int \<Rightarrow> StockItemUpdate \<Rightarrow> (exn + StockItem) \<times> store" where
  "update_stock st item_id stock_update =
     (if (case u_quantity stock_update of None \<Rightarrow> False | Some q \<Rightarrow> q < 0)
      then (Inl RequestValidationError, st)
      else
        let existing_item =
              fetchval s_id (filter (\<lambda>r. s_id r = item_id) (stock_items st))
        in if \<not> truthy existing_item
           then (Inl (HTTPException 404 (NotFound item_id)), st)
           else
             (case build_update stock_update of (update_fields, vals, param_count) \<Rightarrow>
                if update_fields = []
                then (Inl (HTTPException 400 NoFieldsToUpdate), st)
                else
                  (case execute_update st update_fields param_count (vals @ [Integer item_id]) of
                     None \<Rightarrow> (Inl (handler_except ''update stock item'' PyError), st)
                   | Some (st', returning) \<Rightarrow>
                       (case fetchrow returning of
                          None \<Rightarrow> (Inl (handler_except ''update stock item'' PyError), st')
                        | Some row \<Rightarrow> (Inr (to_StockItem row), st')))))"

subsection \<open>\<^verbatim>\<open>POST /stocks/{item_id}/add-quantity\<close>\<close>

definition add_quantity_to_stock ::
  "store \<Rightarrow> int \<Rightarrow> AddQuantityRequest \<Rightarrow> (exn + StockItem) \<times> store" where
  "add_quantity_to_stock st item_id request =
     (if \<not> 0 < quantity_to_add request then (Inl RequestValidationError, st)
      else
        let rows = map (\<lambda>r. if s_id r = item_id
                             then r\<lparr>s_quantity := s_quantity r + quantity_to_add request\<rparr>
                             else r) (stock_items st);
            st' = st\<lparr>stock_items := rows\<rparr>;
            row = fetchrow (filter (\<lambda>r. s_id r = item_id) rows)
        in case row of
             None \<Rightarrow> (Inl (HTTPException 404 (NotFound item_id)), st')
           | Some row \<Rightarrow> (Inr (to_StockItem row), st'))"

subsection \<open>\<^verbatim>\<open>POST /purchase\<close>\<close>

definition purchase_body ::
  "PurchaseRequest \<Rightarrow> store \<Rightarrow> store \<times> (PurchaseResponse, exn) outcome" where
  "purchase_body purchase st =
     (case fetchrow (filter (\<lambda>r. s_id r = p_item_id purchase) (stock_items st)) of
        None \<Rightarrow> (st, Raised (HTTPException 404 (NotFound (p_item_id purchase))))
      | Some current_stock \<Rightarrow>
          if s_quantity current_stock < p_quantity purchase
          then (st, Raised (HTTPException 400
                  (InsufficientStock (s_quantity current_stock) (p_quantity purchase))))
          else
            let new_quantity = s_quantity current_stock - p_quantity purchase;
                (st', returning) = update_stock_quantity st new_quantity (p_item_id purchase);
                updated_quantity = fetchval (\<lambda>q. q) returning
            in (case updated_quantity of
                  None \<Rightarrow> (st', Raised PyError)
                | Some uq \<Rightarrow>
                    (st', Returned
                       \<lparr>r_message = (p_quantity purchase, s_unit current_stock,
                                     s_item_name current_stock),
                        r_item_name = s_item_name current_stock,
                        purchased_quantity = p_quantity purchase,
                        remaining_quantity = uq\<rparr>)))"

definition purchase_item ::
  "store \<Rightarrow> PurchaseRequest \<Rightarrow> (exn + PurchaseResponse) \<times> store" where
  "purchase_item st purchase =
     (if \<not> 0 < p_quantity purchase then (Inl RequestValidationError, st)
      else
        (case transaction st (purchase_body purchase) of
           (st', Returned response) \<Rightarrow> (Inr response, st')
         | (st', Raised e) \<Rightarrow> (Inl (handler_except ''process purchase'' e), st')))"

subsection \<open>\<^verbatim>\<open>DELETE /stocks/{item_id}\<close>\<close>

definition delete_stock :: "store \<Rightarrow> int \<Rightarrow> (exn + string \<times> int) \<times> store" where
  "delete_stock st item_id =
     (let deleted = filter (\<lambda>r. s_id r = item_id) (stock_items st);
          st' = st\<lparr>stock_items := filter (\<lambda>r. s_id r \<noteq> item_id) (stock_items st)\<rparr>
      in case fetchrow deleted of
           None \<Rightarrow> (Inl (HTTPException 404 (NotFound item_id)), st')
         | Some row \<Rightarrow> (Inr (s_item_name row, s_id row), st'))"

section \<open>The voice agent's tools (tool.py)\<close>

text \<open>
  Every tool returns a sentence built by an f-string. A reply is modelled by a constructor
  for the sentence's template, holding the values the template interpolates, in the order
  they appear. The agent's own state is its cart, a list of lines in insertion order.
\<close>

record cart_item =
  ci_item_name :: string
  ci_variant :: string
  ci_quantity :: int
  ci_unit :: string
  ci_price_per_unit :: rat
  ci_total_price :: rat
  ci_variant_id :: "int option"
  ci_stock_item_id :: int

datatype reply =
    CouldNotFindItem string
  | CouldNotFindVariant string string "(string \<times> rat) list"
  | AvailableVariants string "(string \<times> int \<times> string \<times> rat) list"
  | OnlyHave int string string string
  | Added int string string string rat rat rat
  | CartIsEmpty
  | YourCart "cart_item list" rat
  | CartCleared
  | NoLongerAvailable string "string option"
  | PurchaseCompleted "(int \<times> string \<times> string \<times> string \<times> rat) list" rat
  | EncounteredError

subsection \<open>The joins\<close>

text \<open>\<^verbatim>\<open>FROM stock_items s LEFT JOIN item_variants v ON s.id = v.stock_item_id\<close>: every
  stock row with each of its variant rows, or once with no variant when it has none.\<close>

definition left_join ::
  "stock_row list \<Rightarrow> variant_row list \<Rightarrow> (stock_row \<times> variant_row option) list" where
  "left_join ss vs =
     concat (map (\<lambda>s. case filter (\<lambda>v. v_stock_item_id v = s_id s) vs of
                          [] \<Rightarrow> [(s, None)]
                        | ms \<Rightarrow> map (\<lambda>v. (s, Some v)) ms) ss)"

text \<open>The row of the select list shared by the queries:
  \<^verbatim>\<open>s.id, s.item_name, COALESCE(v.variant, 'Default'), COALESCE(v.quantity, s.quantity),
  COALESCE(v.unit, s.unit), COALESCE(v.price, 0), v.id\<close>.\<close>

record item_row =
  i_stock_item_id :: int
  i_item_name :: string
  i_variant :: string
  i_quantity :: int
  i_unit :: string
  i_price :: rat
  i_variant_id :: "int option"

definition select_item :: "stock_row \<times> variant_row option \<Rightarrow> item_row" where
  "select_item sv =
     (case sv of (s, v) \<Rightarrow>
        \<lparr>i_stock_item_id = s_id s,
         i_item_name = s_item_name s,
         i_variant = (case v of None \<Rightarrow> ''Default'' | Some w \<Rightarrow> v_variant w),
         i_quantity = (case v of None \<Rightarrow> s_quantity s | Some w \<Rightarrow> v_quantity w),
         i_unit = (case v of None \<Rightarrow> s_unit s | Some w \<Rightarrow> v_unit w),
         i_price = (case v of None \<Rightarrow> 0 | Some w \<Rightarrow> v_price w),
         i_variant_id = map_option v_id v\<rparr>)"

text \<open>\<^verbatim>\<open>WHERE LOWER(TRIM(s.item_name)) = LOWER(TRIM($1))\<close>.\<close>

definition name_matches :: "string \<Rightarrow> stock_row \<Rightarrow> bool" where
  "name_matches mapped_item s \<longleftrightarrow>
     sql_lower (sql_trim (s_item_name s)) = sql_lower (sql_trim mapped_item)"

text \<open>\<^verbatim>\<open>AND (v.variant IS NULL OR LOWER(TRIM(v.variant)) = LOWER(TRIM($2)))\<close>.\<close>

definition variant_matches :: "string \<Rightarrow> variant_row option \<Rightarrow> bool" where
  "variant_matches mapped_variant v \<longleftrightarrow>
     (case v of None \<Rightarrow> True
      | Some w \<Rightarrow> sql_lower (sql_trim (v_variant w)) = sql_lower (sql_trim mapped_variant))"


definition find_query :: "store \<Rightarrow> string \<Rightarrow> string \<Rightarrow> item_row list" where
  "find_query st mapped_item mapped_variant =
     map select_item
       (filter (\<lambda>sv. name_matches mapped_item (fst sv) \<and> variant_matches mapped_variant (snd sv))
          (left_join (stock_items st) (item_variants st)))"

text \<open>\<^verbatim>\<open>SELECT COALESCE(v.variant, 'Default'), COALESCE(v.price, s.price)\<close>: here the
  price falls back on the stock row's own, which may be null.\<close>

definition variants_query :: "store \<Rightarrow> string \<Rightarrow> (string \<times> rat option) list" where
  "variants_query st mapped_item =
     map (\<lambda>sv. case sv of (s, v) \<Rightarrow>
            (case v of None \<Rightarrow> (''Default'', s_price s)
             | Some w \<Rightarrow> (v_variant w, Some (v_price w))))
       (filter (\<lambda>sv. name_matches mapped_item (fst sv))
          (left_join (stock_items st) (item_variants st)))"

subsection \<open>\<^verbatim>\<open>get_item_variants\<close>\<close>



subsection \<open>\<^verbatim>\<open>add_to_cart\<close>\<close>

text \<open>\<^verbatim>\<open>[f"{v['variant']} (${v['price']:.2f})" for v in variants]\<close> raises
  \<^verbatim>\<open>TypeError\<close> on a null price; \<open>None\<close> is that exception.\<close>

fun variant_list :: "(string \<times> rat option) list \<Rightarrow> (string \<times> rat) list option" where
  "variant_list [] = Some []"
| "variant_list ((name, None) # vs) = None"
| "variant_list ((name, Some p) # vs) =
     (case variant_list vs of None \<Rightarrow> None | Some l \<Rightarrow> Some ((name, p) # l))"

definition add_to_cart ::
  "store \<Rightarrow> cart_item list \<Rightarrow> string \<Rightarrow> int \<Rightarrow> string \<Rightarrow> reply \<times> cart_item list" where
  "add_to_cart st cart item_name quantity variant =
     (let mapped_item = map_item_name item_name;
          mapped_variant = (if variant \<noteq> [] \<and> py_strip variant \<noteq> []
                            then map_variant_name variant else ''Default'');
          item = fetchrow (find_query st mapped_item mapped_variant)
      in case item of
           None \<Rightarrow>
             (let variants = variants_query st mapped_item
              in if variants \<noteq> []
                 then (case variant_list variants of
                         None \<Rightarrow> (EncounteredError, cart)
                       | Some l \<Rightarrow>
                           (CouldNotFindVariant (format_message variant)
                              (format_message item_name)
                              (map (\<lambda>vp. (format_message (fst vp), snd vp)) l), cart))
                 else (CouldNotFindItem item_name, cart))
         | Some item \<Rightarrow>
             if i_quantity item < quantity
             then (OnlyHave (i_quantity item) (i_unit item) (i_item_name item)
                     (i_variant item), cart)
             else
               let item_total = i_price item * of_int quantity;
                   cart_item = \<lparr>ci_item_name = i_item_name item,
                                ci_variant = i_variant item,
                                ci_quantity = quantity,
                                ci_unit = i_unit item,
                                ci_price_per_unit = i_price item,
                                ci_total_price = item_total,
                                ci_variant_id = i_variant_id item,
                                ci_stock_item_id = i_stock_item_id item\<rparr>;
                   cart' = cart @ [cart_item];
                   cart_total = sum_list (map ci_total_price cart')
               in (Added quantity (i_unit item) (i_item_name item) (i_variant item)
                     (i_price item) item_total cart_total, cart'))"

subsection \<open>\<^verbatim>\<open>show_cart\<close> and \<^verbatim>\<open>clear_cart\<close>\<close>

definition show_cart :: "cart_item list \<Rightarrow> reply" where
  "show_cart cart =
     (if cart = [] then CartIsEmpty
      else YourCart cart (fold (\<lambda>item total_price. total_price + ci_total_price item) cart 0))"

definition clear_cart :: "cart_item list \<Rightarrow> reply \<times> cart_item list" where
  "clear_cart cart = (CartCleared, [])"

subsection \<open>\<^verbatim>\<open>complete_purchase\<close>\<close>

text \<open>\<^verbatim>\<open>SELECT quantity FROM item_variants WHERE id = $1\<close> and
  \<^verbatim>\<open>SELECT quantity FROM stock_items WHERE id = $1\<close>, read with \<^verbatim>\<open>fetchval\<close>.\<close>

definition variant_stock :: "store \<Rightarrow> int \<Rightarrow> int option" where
  "variant_stock st variant_id =
     fetchval v_quantity (filter (\<lambda>v. v_id v = variant_id) (item_variants st))"

definition item_stock :: "store \<Rightarrow> int \<Rightarrow> int option" where
  "item_stock st stock_item_id =
     fetchval s_quantity (filter (\<lambda>r. s_id r = stock_item_id) (stock_items st))"

text \<open>The loop over the cart. It carries the store as written so far and the pair
  \<^verbatim>\<open>(purchase_details, total_amount)\<close>; \<open>Inl\<close> is the \<^verbatim>\<open>return\<close> from inside the
  loop, \<open>Inr\<close> the loop running to its end.\<close>

fun purchase_loop ::
  "cart_item list \<Rightarrow> store \<Rightarrow> (int \<times> string \<times> string \<times> string \<times> rat) list \<times> rat \<Rightarrow>
   store \<times> (reply + (int \<times> string \<times> string \<times> string \<times> rat) list \<times> rat)" where
  "purchase_loop [] st acc = (st, Inr acc)"
| "purchase_loop (cart_item # rest) st acc =
     (if truthy (ci_variant_id cart_item)
      then
        (case variant_stock st (the (ci_variant_id cart_item)) of
           None \<Rightarrow>
             (st, Inl (NoLongerAvailable (ci_item_name cart_item) (Some (ci_variant cart_item))))
         | Some current_stock \<Rightarrow>
             if current_stock < ci_quantity cart_item
             then (st, Inl (NoLongerAvailable (ci_item_name cart_item)
                              (Some (ci_variant cart_item))))
             else
               purchase_loop rest
                 (update_variant_quantity st (current_stock - ci_quantity cart_item)
                    (the (ci_variant_id cart_item)))
                 (fst acc @ [(ci_quantity cart_item, ci_unit cart_item, ci_item_name cart_item,
                              ci_variant cart_item, ci_total_price cart_item)],
                  snd acc + ci_total_price cart_item))
      else
        (case item_stock st (ci_stock_item_id cart_item) of
           None \<Rightarrow> (st, Inl (NoLongerAvailable (ci_item_name cart_item) None))
         | Some current_stock \<Rightarrow>
             if current_stock < ci_quantity cart_item
             then (st, Inl (NoLongerAvailable (ci_item_name cart_item) None))
             else
               purchase_loop rest
                 (fst (update_stock_quantity st (current_stock - ci_quantity cart_item)
                    (ci_stock_item_id cart_item)))
                 (fst acc @ [(ci_quantity cart_item, ci_unit cart_item, ci_item_name cart_item,
                              ci_variant cart_item, ci_total_price cart_item)],
                  snd acc + ci_total_price cart_item)))"

text \<open>The body of the transaction block: the value returned is the reply with the cart
  as the block leaves it.\<close>

definition purchase_block ::
  "cart_item list \<Rightarrow> store \<Rightarrow> store \<times> (reply \<times> cart_item list, exn) outcome" where
  "purchase_block cart st =
     (case purchase_loop cart st ([], 0) of
        (st', Inl sorry_reply) \<Rightarrow> (st', Returned (sorry_reply, cart))
      | (st', Inr (purchase_details, total_amount)) \<Rightarrow>
          (st', Returned (PurchaseCompleted purchase_details total_amount, [])))"

definition complete_purchase ::
  "store \<Rightarrow> cart_item list \<Rightarrow> reply \<times> cart_item list \<times> store" where
  "complete_purchase st cart =
     (if cart = [] then (CartIsEmpty, cart, st)
      else
        (case transaction st (purchase_block cart) of
           (st', Returned (answer, cart')) \<Rightarrow> (answer, cart', st')
         | (st', Raised e) \<Rightarrow> (EncounteredError, cart, st')))"

text \<open>The row \<^verbatim>\<open>add_to_cart\<close> resolves its arguments to: the first row of its
  \<^verbatim>\<open>find_query\<close>, on the names as the tool maps them.\<close>

definition mapped_variant_of :: "string \<Rightarrow> string" where
  "mapped_variant_of variant =
     (if variant \<noteq> [] \<and> py_strip variant \<noteq> [] then map_variant_name variant else ''Default'')"

definition resolved_row :: "store \<Rightarrow> string \<Rightarrow> string \<Rightarrow> item_row option" where
  "resolved_row st item_name variant =
     fetchrow (find_query st (map_item_name item_name) (mapped_variant_of variant))"

definition is_added :: "reply \<Rightarrow> bool" where
  "is_added r = (case r of Added _ _ _ _ _ _ _ \<Rightarrow> True | _ \<Rightarrow> False)"

definition is_insufficient :: "reply \<Rightarrow> bool" where
  "is_insufficient r = (case r of OnlyHave _ _ _ _ \<Rightarrow> True | _ \<Rightarrow> False)"

text \<open>The line \<^verbatim>\<open>add_to_cart\<close> appends for a resolved row and a quantity.\<close>

definition line_of :: "item_row \<Rightarrow> int \<Rightarrow> cart_item" where
  "line_of item quantity =
     \<lparr>ci_item_name = i_item_name item, ci_variant = i_variant item, ci_quantity = quantity,
      ci_unit = i_unit item, ci_price_per_unit = i_price item,
      ci_total_price = i_price item * of_int quantity,
      ci_variant_id = i_variant_id item, ci_stock_item_id = i_stock_item_id item\<rparr>"


text \<open>A line whose variant id, if any, came from the store's sequence.\<close>

definition line_ok :: "cart_item \<Rightarrow> bool" where
  "line_ok c \<longleftrightarrow> (case ci_variant_id c of None \<Rightarrow> True | Some i \<Rightarrow> 0 < i)"

section \<open>Properties stated by the specification\<close>

text \<open>No stored quantity is negative.\<close>

definition quantities_nonneg :: "store \<Rightarrow> bool" where
  "quantities_nonneg st \<longleftrightarrow>
     list_all (\<lambda>r. 0 \<le> s_quantity r) (stock_items st) \<and>
     list_all (\<lambda>v. 0 \<le> v_quantity v) (item_variants st)"

text \<open>Ids come from the store's sequences, which count up from 1: every id stored is
  positive, and the next \<^verbatim>\<open>stock_items\<close> id is above those in use.\<close>

definition ids_generated :: "store \<Rightarrow> bool" where
  "ids_generated st \<longleftrightarrow>
     0 < stock_items_id_seq st \<and>
     list_all (\<lambda>r. 0 < s_id r \<and> s_id r < stock_items_id_seq st) (stock_items st) \<and>
     list_all (\<lambda>v. 0 < v_id v) (item_variants st)"

definition cart_ids_generated :: "cart_item list \<Rightarrow> bool" where
  "cart_ids_generated cart \<longleftrightarrow>
     list_all (\<lambda>c. case ci_variant_id c of None \<Rightarrow> True | Some i \<Rightarrow> 0 < i) cart"

text \<open>The effect of an update request on one row, in the specification's words: the
  fields supplied are written, the others keep their value.\<close>

definition written :: "StockItemUpdate \<Rightarrow> stock_row \<Rightarrow> stock_row" where
  "written stock_update r =
     r\<lparr>s_item_name := (case u_item_name stock_update of None \<Rightarrow> s_item_name r | Some x \<Rightarrow> x),
       s_quantity := (case u_quantity stock_update of None \<Rightarrow> s_quantity r | Some q \<Rightarrow> q),
       s_unit := (case u_unit stock_update of None \<Rightarrow> s_unit r | Some x \<Rightarrow> x)\<rparr>"







definition sorry_reply :: "cart_item \<Rightarrow> reply" where
  "sorry_reply c =
     NoLongerAvailable (ci_item_name c)
       (case ci_variant_id c of None \<Rightarrow> None | Some i \<Rightarrow> Some (ci_variant c))"


subsection \<open>Example states\<close>

definition example_store :: store where
  "example_store =
     \<lparr>stock_items =
        [\<lparr>s_id = 1, s_item_name = ''Coke'', s_quantity = 10, s_unit = ''can'',
          s_price = Some 2, s_category_id = Some 1\<rparr>,
         \<lparr>s_id = 2, s_item_name = ''Widget'', s_quantity = 7, s_unit = ''pieces'',
          s_price = Some 5, s_category_id = None\<rparr>],
      item_variants =
        [\<lparr>v_id = 1, v_stock_item_id = 1, v_variant = ''Regular'', v_quantity = 4,
          v_unit = ''can'', v_price = 3 / 2\<rparr>,
         \<lparr>v_id = 2, v_stock_item_id = 1, v_variant = ''1.5 Liter'', v_quantity = 2,
          v_unit = ''bottle'', v_price = 3\<rparr>],
      stock_items_id_seq = 3\<rparr>"

definition widget_line :: "int \<Rightarrow> cart_item" where
  "widget_line q =
     \<lparr>ci_item_name = ''Widget'', ci_variant = ''Default'', ci_quantity = q,
      ci_unit = ''pieces'', ci_price_per_unit = 0, ci_total_price = 0,
      ci_variant_id = None, ci_stock_item_id = 2\<rparr>"

definition regular_coke_line :: "int \<Rightarrow> cart_item" where
  "regular_coke_line q =
     \<lparr>ci_item_name = ''Coke'', ci_variant = ''Regular'', ci_quantity = q,
      ci_unit = ''can'', ci_price_per_unit = 3 / 2, ci_total_price = 3 / 2 * of_int q,
      ci_variant_id = Some 1, ci_stock_item_id = 1\<rparr>"

definition example_cart :: "cart_item list" where
  "example_cart = [widget_line 3, regular_coke_line 3, regular_coke_line 2, widget_line 4]"


section \<open>Proofs\<close>

subsection \<open>The name normalizer\<close>





subsection \<open>Reading rows\<close>

lemma fetchrow_simps [simp]: "fetchrow [] = None" "fetchrow (x # xs) = Some x"
  by (simp_all add: fetchrow_def)


lemma fetchrow_filter_Some: "fetchrow (filter P xs) = Some x \<Longrightarrow> x \<in> set xs \<and> P x"
  by (induction xs) (auto split: if_splits)

lemma fetchrow_map_filter:
  "fetchrow (map f (filter P xs)) = map_option f (fetchrow (filter P xs))"
  by (cases "filter P xs") auto

subsection \<open>Partial update\<close>

lemma build_update_cases:
  "build_update u =
     (case (u_item_name u, u_quantity u, u_unit u) of
        (None, None, None) \<Rightarrow> ([], [], 1)
      | (Some a, None, None) \<Rightarrow> ([(Col_item_name, 1)], [Text a], 2)
      | (None, Some b, None) \<Rightarrow> ([(Col_quantity, 1)], [Integer b], 2)
      | (None, None, Some c) \<Rightarrow> ([(Col_unit, 1)], [Text c], 2)
      | (Some a, Some b, None) \<Rightarrow> ([(Col_item_name, 1), (Col_quantity, 2)], [Text a, Integer b], 3)
      | (Some a, None, Some c) \<Rightarrow> ([(Col_item_name, 1), (Col_unit, 2)], [Text a, Text c], 3)
      | (None, Some b, Some c) \<Rightarrow> ([(Col_quantity, 1), (Col_unit, 2)], [Integer b, Text c], 3)
      | (Some a, Some b, Some c) \<Rightarrow>
          ([(Col_item_name, 1), (Col_quantity, 2), (Col_unit, 3)], [Text a, Integer b, Text c], 4))"
  by (simp add: build_update_def add_field_def split: option.splits)


lemma build_update_apply:
  "build_update u = (fs, vals, pc) \<Longrightarrow>
   param (vals @ [Integer i]) pc = Some (Integer i) \<and>
   apply_set fs (vals @ [Integer i]) r = Some (written u r)"
  by (auto simp: build_update_cases param_def written_def split: option.splits)

lemma update_rows_written:
  assumes "\<And>r. apply_set fs vals r = Some (f r)"
  shows "update_rows fs vals i rows =
           Some (map (\<lambda>r. if s_id r = i then f r else r) rows,
                 map f (filter (\<lambda>r. s_id r = i) rows))"
  by (induction rows) (simp_all add: assms)

lemma execute_update_written:
  assumes "build_update u = (fs, vals, pc)"
  shows "execute_update st fs pc (vals @ [Integer i]) =
           Some (st\<lparr>stock_items := map (\<lambda>r. if s_id r = i then written u r else r) (stock_items st)\<rparr>,
                 map (written u) (filter (\<lambda>r. s_id r = i) (stock_items st)))"
  using build_update_apply[OF assms, of i]
  by (simp add: execute_update_def update_rows_written)




lemma s_id_written [simp]: "s_id (written u r) = s_id r"
  by (simp add: written_def)


subsection \<open>Purchase\<close>



subsection \<open>Create\<close>



subsection \<open>Quantities are never negative\<close>

lemma nonneg_add_stock: "quantities_nonneg st \<Longrightarrow> quantities_nonneg (snd (add_stock st req))"
  by (simp add: add_stock_def insert_stock_item_def quantities_nonneg_def Let_def)

lemma nonneg_written:
  "\<not> (case u_quantity u of None \<Rightarrow> False | Some q \<Rightarrow> q < 0) \<Longrightarrow> 0 \<le> s_quantity r \<Longrightarrow>
   0 \<le> s_quantity (written u r)"
  by (simp add: written_def split: option.splits)

lemma nonneg_update_stock:
  assumes "quantities_nonneg st"
  shows "quantities_nonneg (snd (update_stock st i u))"
proof (cases "case u_quantity u of None \<Rightarrow> False | Some q \<Rightarrow> q < 0")
  case True
  then show ?thesis using assms by (simp add: update_stock_def)
next
  case False
  obtain fs vals pc where b: "build_update u = (fs, vals, pc)"
    by (cases "build_update u") auto
  have "list_all (\<lambda>r. 0 \<le> s_quantity r)
          (map (\<lambda>r. if s_id r = i then written u r else r) (stock_items st))"
    using assms nonneg_written[OF False]
    by (auto simp: quantities_nonneg_def list_all_iff)
  then show ?thesis
    using assms False
    by (auto simp: update_stock_def Let_def b execute_update_written[OF b] quantities_nonneg_def
        split: option.splits)
qed

lemma nonneg_add_quantity:
  "quantities_nonneg st \<Longrightarrow> quantities_nonneg (snd (add_quantity_to_stock st i request))"
  by (auto simp: add_quantity_to_stock_def quantities_nonneg_def Let_def list_all_iff
      split: option.splits)

lemma nonneg_purchase_item:
  assumes "quantities_nonneg st"
  shows "quantities_nonneg (snd (purchase_item st purchase))"
proof (cases "fetchrow (filter (\<lambda>r. s_id r = p_item_id purchase) (stock_items st))")
  case None
  then show ?thesis using assms
    by (simp add: purchase_item_def transaction_def purchase_body_def)
next
  case (Some row)
  then show ?thesis using assms
    by (auto simp: purchase_item_def transaction_def purchase_body_def update_stock_quantity_def
        fetchval_def fetchrow_map_filter Let_def quantities_nonneg_def list_all_iff
        split: option.splits)
qed

lemma nonneg_update_variant:
  "quantities_nonneg st \<Longrightarrow> 0 \<le> n \<Longrightarrow> quantities_nonneg (update_variant_quantity st n i)"
  by (auto simp: quantities_nonneg_def update_variant_quantity_def list_all_iff)

lemma nonneg_update_item:
  "quantities_nonneg st \<Longrightarrow> 0 \<le> n \<Longrightarrow> quantities_nonneg (fst (update_stock_quantity st n i))"
  by (auto simp: quantities_nonneg_def update_stock_quantity_def list_all_iff)

lemma nonneg_purchase_loop:
  "quantities_nonneg st \<Longrightarrow> quantities_nonneg (fst (purchase_loop cart st acc))"
proof (induction cart arbitrary: st acc)
  case Nil
  then show ?case by simp
next
  case (Cons c cart)
  show ?case
  proof (cases "truthy (ci_variant_id c)")
    case True
    show ?thesis
    proof (cases "variant_stock st (the (ci_variant_id c))")
      case None
      then show ?thesis using True Cons.prems by simp
    next
      case (Some cur)
      show ?thesis
      proof (cases "cur < ci_quantity c")
        case True
        then show ?thesis using \<open>truthy (ci_variant_id c)\<close> Some Cons.prems by simp
      next
        case False
        then have "quantities_nonneg (update_variant_quantity st (cur - ci_quantity c) (the (ci_variant_id c)))"
          using Cons.prems by (intro nonneg_update_variant) auto
        from Cons.IH[OF this] show ?thesis using True Some False by simp
      qed
    qed
  next
    case nv: False
    show ?thesis
    proof (cases "item_stock st (ci_stock_item_id c)")
      case None
      then show ?thesis using nv Cons.prems by simp
    next
      case (Some cur)
      show ?thesis
      proof (cases "cur < ci_quantity c")
        case True
        then show ?thesis using nv Some Cons.prems by simp
      next
        case False
        then have "quantities_nonneg (fst (update_stock_quantity st (cur - ci_quantity c) (ci_stock_item_id c)))"
          using Cons.prems by (intro nonneg_update_item) auto
        from Cons.IH[OF this] show ?thesis using nv Some False by simp
      qed
    qed
  qed
qed

lemma nonneg_complete_purchase:
  assumes "quantities_nonneg st"
  shows "quantities_nonneg (snd (snd (complete_purchase st cart)))"
proof -
  obtain st' res where l: "purchase_loop cart st ([], 0) = (st', res)"
    by (cases "purchase_loop cart st ([], 0)") auto
  from nonneg_purchase_loop[OF assms, of cart "([], 0)"] l have "quantities_nonneg st'" by simp
  then show ?thesis using assms l
    by (auto simp: complete_purchase_def transaction_def purchase_block_def split: sum.splits)
qed

text \<open>
  C4. When no quantity stored in \<^verbatim>\<open>stock_items\<close> or \<^verbatim>\<open>item_variants\<close> is negative, none
  is negative after \<^verbatim>\<open>add_stock\<close>, \<^verbatim>\<open>update_stock\<close>, \<^verbatim>\<open>add_quantity_to_stock\<close>,
  \<^verbatim>\<open>purchase_item\<close> or \<^verbatim>\<open>complete_purchase\<close>, whatever their arguments and whatever
  their outcome.
\<close>

theorem quantities_never_negative:
  assumes "quantities_nonneg st"
  shows "quantities_nonneg (snd (add_stock st req)) \<and>
         quantities_nonneg (snd (update_stock st i stock_update)) \<and>
         quantities_nonneg (snd (add_quantity_to_stock st i request)) \<and>
         quantities_nonneg (snd (purchase_item st purchase)) \<and>
         quantities_nonneg (snd (snd (complete_purchase st cart)))"
  using nonneg_add_stock[OF assms] nonneg_update_stock[OF assms] nonneg_add_quantity[OF assms]
    nonneg_purchase_item[OF assms] nonneg_complete_purchase[OF assms]
  by blast

subsection \<open>The cart\<close>

lemma add_to_cart_resolved:
  assumes "resolved_row st n v = Some item"
  shows "add_to_cart st cart n q v =
           (if i_quantity item < q
            then (OnlyHave (i_quantity item) (i_unit item) (i_item_name item) (i_variant item), cart)
            else (Added q (i_unit item) (i_item_name item) (i_variant item) (i_price item)
                    (i_price item * of_int q)
                    (sum_list (map ci_total_price cart) + i_price item * of_int q),
                  cart @ [line_of item q]))"
  using assms
  by (simp add: add_to_cart_def resolved_row_def mapped_variant_of_def Let_def line_of_def)

lemma add_to_cart_unresolved:
  assumes "resolved_row st n v = None"
  shows "\<not> is_added (fst (add_to_cart st cart n q v)) \<and>
         \<not> is_insufficient (fst (add_to_cart st cart n q v)) \<and>
         snd (add_to_cart st cart n q v) = cart"
  using assms
  by (simp add: add_to_cart_def resolved_row_def mapped_variant_of_def Let_def
      is_added_def is_insufficient_def split: option.splits)








subsection \<open>Variants of an item\<close>

lemma left_join_Cons:
  "left_join (s # ss) vs =
     (case filter (\<lambda>v. v_stock_item_id v = s_id s) vs of
        [] \<Rightarrow> [(s, None)] | ms \<Rightarrow> map (\<lambda>v. (s, Some v)) ms) @ left_join ss vs"
  by (simp add: left_join_def)

lemma left_join_Nil [simp]: "left_join [] vs = []"
  by (simp add: left_join_def)






subsection \<open>Checkout that stops part-way\<close>

text \<open>
  C1. The specification asks that a checkout which fails on some line leaves every
  quantity as it was before the call. The tool leaves the transaction block by
  \<^verbatim>\<open>return\<close>, which commits what the loop has written. In the example store, a cart of
  3 Widgets (7 in stock) followed by 5 Regular Cokes (4 in stock) fails on the second
  line, and the Widget quantity a reader finds afterwards is 4, not 7.
\<close>

theorem complete_purchase_partial_commit:
  "complete_purchase example_store [widget_line 3, regular_coke_line 5] =
     (NoLongerAvailable ''Coke'' (Some ''Regular''),
      [widget_line 3, regular_coke_line 5],
      fst (update_stock_quantity example_store 4 2)) \<and>
   item_stock example_store 2 = Some 7 \<and>
   item_stock (snd (snd (complete_purchase example_store [widget_line 3, regular_coke_line 5]))) 2
     = Some 4"
  by code_simp

subsection \<open>Checkout\<close>



lemma item_stock_update_variant [simp]:
  "item_stock (update_variant_quantity st n i) j = item_stock st j"
  by (simp add: item_stock_def update_variant_quantity_def)


lemma variant_stock_update_item [simp]:
  "variant_stock (fst (update_stock_quantity st n i)) j = variant_stock st j"
  by (simp add: variant_stock_def update_stock_quantity_def)

lemma truthy_line: "line_ok c \<Longrightarrow> truthy (ci_variant_id c) \<longleftrightarrow> ci_variant_id c \<noteq> None"
  by (auto simp: line_ok_def truthy_def split: option.splits)








subsection \<open>Generated ids, and the theorems at the example store\<close>

lemma ids_generated_nonzero:
  "ids_generated st \<Longrightarrow> list_all (\<lambda>r. s_id r \<noteq> 0) (stock_items st) \<and> stock_items_id_seq st \<noteq> 0"
  by (auto simp: ids_generated_def list_all_iff)

lemma ids_generated_add_stock: "ids_generated st \<Longrightarrow> ids_generated (snd (add_stock st req))"
  by (auto simp: add_stock_def insert_stock_item_def ids_generated_def Let_def list_all_iff)

lemma ids_generated_update_stock:
  assumes "ids_generated st"
  shows "ids_generated (snd (update_stock st i u))"
proof -
  obtain fs vals pc where b: "build_update u = (fs, vals, pc)"
    by (cases "build_update u") auto
  show ?thesis
    using assms
    by (auto simp: update_stock_def Let_def b execute_update_written[OF b] ids_generated_def
        list_all_iff split: option.splits)
qed

lemma ids_generated_add_quantity:
  "ids_generated st \<Longrightarrow> ids_generated (snd (add_quantity_to_stock st i request))"
  by (auto simp: add_quantity_to_stock_def ids_generated_def Let_def list_all_iff
      split: option.splits)

lemma ids_generated_purchase_item:
  "ids_generated st \<Longrightarrow> ids_generated (snd (purchase_item st purchase))"
  by (auto simp: purchase_item_def transaction_def purchase_body_def update_stock_quantity_def
      fetchval_def Let_def ids_generated_def list_all_iff split: option.splits)

lemma ids_generated_delete_stock:
  "ids_generated st \<Longrightarrow> ids_generated (snd (delete_stock st i))"
  by (auto simp: delete_stock_def ids_generated_def Let_def list_all_iff split: option.splits)

lemma ids_generated_update_variant:
  "ids_generated st \<Longrightarrow> ids_generated (update_variant_quantity st n i)"
  by (auto simp: ids_generated_def update_variant_quantity_def list_all_iff)

lemma ids_generated_update_item:
  "ids_generated st \<Longrightarrow> ids_generated (fst (update_stock_quantity st n i))"
  by (auto simp: ids_generated_def update_stock_quantity_def list_all_iff)

lemma ids_generated_purchase_loop:
  "ids_generated st \<Longrightarrow> ids_generated (fst (purchase_loop cart st acc))"
proof (induction cart arbitrary: st acc)
  case Nil
  then show ?case by simp
next
  case (Cons c cart)
  show ?case
    using Cons.prems
    by (auto simp: Cons.IH ids_generated_update_variant ids_generated_update_item
        split: option.splits)
qed

lemma ids_generated_complete_purchase:
  assumes "ids_generated st"
  shows "ids_generated (snd (snd (complete_purchase st cart)))"
proof -
  obtain st' res where l: "purchase_loop cart st ([], 0) = (st', res)"
    by (cases "purchase_loop cart st ([], 0)") auto
  from ids_generated_purchase_loop[OF assms, of cart "([], 0)"] l have "ids_generated st'" by simp
  then show ?thesis using assms l
    by (auto simp: complete_purchase_def transaction_def purchase_block_def split: sum.splits)
qed

lemma left_join_variant:
  "(s, Some w) \<in> set (left_join ss vs) \<Longrightarrow> w \<in> set vs"
proof (induction ss)
  case Nil
  then show ?case by simp
next
  case (Cons a ss)
  have "set (case filter (\<lambda>v. v_stock_item_id v = s_id a) vs of
               [] \<Rightarrow> [(a, None)] | ms \<Rightarrow> map (\<lambda>v. (a, Some v)) ms)
          \<subseteq> insert (a, None) ((\<lambda>v. (a, Some v)) ` set (filter (\<lambda>v. v_stock_item_id v = s_id a) vs))"
    by (cases "filter (\<lambda>v. v_stock_item_id v = s_id a) vs") auto
  with Cons show ?case
    by (auto simp: left_join_Cons)
qed

lemma resolved_row_variant_id:
  assumes "ids_generated st" and "resolved_row st n v = Some item"
  shows "case i_variant_id item of None \<Rightarrow> True | Some i \<Rightarrow> 0 < i"
proof -
  from fetchrow_filter_Some[of "\<lambda>_. True", simplified] assms(2)
  have "item \<in> set (find_query st (map_item_name n) (mapped_variant_of v))"
    by (simp add: resolved_row_def)
  then obtain s w where sw: "(s, w) \<in> set (left_join (stock_items st) (item_variants st))"
    and item: "item = select_item (s, w)"
    by (auto simp: find_query_def)
  show ?thesis
  proof (cases w)
    case None
    with item show ?thesis by (simp add: select_item_def)
  next
    case (Some x)
    with sw have "x \<in> set (item_variants st)" by (auto dest: left_join_variant)
    with assms(1) have "0 < v_id x" by (auto simp: ids_generated_def list_all_iff)
    with item Some show ?thesis by (simp add: select_item_def)
  qed
qed

lemma cart_ids_generated_add_to_cart:
  assumes "ids_generated st" and "cart_ids_generated cart"
  shows "cart_ids_generated (snd (add_to_cart st cart n q v))"
proof (cases "resolved_row st n v")
  case None
  with add_to_cart_unresolved[OF None, of cart q] assms(2) show ?thesis by simp
next
  case (Some item)
  from resolved_row_variant_id[OF assms(1) Some] assms(2) show ?thesis
    by (simp add: add_to_cart_resolved[OF Some] cart_ids_generated_def line_of_def)
qed


lemma example_store_nonneg: "quantities_nonneg example_store"
  by (simp add: quantities_nonneg_def example_store_def)





text \<open>The example store, after a purchase and after a checkout.\<close>

theorem quantities_never_negative_witness:
  "quantities_nonneg example_store \<and>
   quantities_nonneg (snd (purchase_item example_store \<lparr>p_item_id = 2, p_quantity = 3\<rparr>)) \<and>
   quantities_nonneg (snd (snd (complete_purchase example_store example_cart)))"
  using quantities_never_negative[OF example_store_nonneg] example_store_nonneg
  by blast



end
